theory Spec2Isabelle
  imports Main "HOL-Library.AList"
begin

section \<open>Python values, dictionaries and the object store\<close>

text \<open>
  The wrappers of \<^verbatim>\<open>flask_pymongo/wrappers.py\<close> rewrite the arguments of the
  driver's collection methods. The rewriting is done with \<^verbatim>\<open>dict.update\<close>, which
  mutates its receiver, so dictionaries are objects in a store and a value only refers
  to them by address. Lists and tuples are never mutated by the wrappers; they carry
  their elements directly. Dictionary keys are field names (strings). A dictionary is
  an association list in insertion order, the order in which Python iterates it; a well
  formed dictionary has no key twice.
\<close>

type_synonym addr = nat

datatype pyval =
    PyNone
  | PyBool bool
  | PyInt int
  | PyStr string
  | PyDict addr
  | PyList "pyval list"
  | PyTuple "pyval list"

type_synonym dict = "(string \<times> pyval) list"

datatype error = TypeError | AttributeError | NameError | HTTPException int

type_synonym db_ref = nat

text \<open>
  A \<^verbatim>\<open>Collection\<close> object holds a reference to the \<^verbatim>\<open>Database\<close> object it was
  constructed with and its name. The only attribute of a \<^verbatim>\<open>Database\<close> object that the
  wrappers read is \<^verbatim>\<open>_tenant_field\<close>. Its values are the optional mappings of the data
  model: \<^verbatim>\<open>None\<close>, the value of the class attribute, or a reference to a dictionary.
  The state also records the status codes that \<^verbatim>\<open>flask.abort\<close> was called with.
\<close>

record collection =
  database :: db_ref
  name :: string

record state =
  heap :: "addr \<Rightarrow> dict"
  next_addr :: addr
  tenant_fields :: "db_ref \<Rightarrow> addr option"
  aborts :: "int list"

text \<open>
  A call of a method of the driver's \<^verbatim>\<open>pymongo.collection.Collection\<close> through
  \<^verbatim>\<open>super(Collection, self)\<close>: the receiver, the method, the positional and the
  keyword arguments.
\<close>

datatype driver_method =
  Driver_save | Driver_insert | Driver_update | Driver_remove
  | Driver_find_one | Driver_find | Driver_find_and_modify

record call =
  call_target :: collection
  call_method :: driver_method
  call_args :: "pyval list"
  call_kwargs :: "(string \<times> pyval) list"

text \<open>
  Every wrapper method ends in at most one call of the driver, in tail position. Its
  outcome is the exception it raised, the driver call whose result it returns, or the
  value it returned without calling the driver.
\<close>

datatype outcome = Raise error | Delegate call | Return pyval

text \<open>\<^verbatim>\<open>isinstance(x, dict)\<close>\<close>

fun isinstance_dict :: "pyval \<Rightarrow> bool" where
  "isinstance_dict (PyDict a) = True"
| "isinstance_dict _ = False"

text \<open>The truth value of \<^verbatim>\<open>self.database.tenant_field\<close>: \<^verbatim>\<open>None\<close> and the empty
  dictionary are false.\<close>

fun truthy :: "state \<Rightarrow> addr option \<Rightarrow> bool" where
  "truthy s None = False"
| "truthy s (Some p) = (heap s p \<noteq> [])"

text \<open>The contents of \<^verbatim>\<open>d\<close> after \<^verbatim>\<open>d.update(other)\<close>: each item of \<^verbatim>\<open>other\<close>, in
  order, replaces the value of its key or is appended.\<close>

fun dict_update :: "dict \<Rightarrow> dict \<Rightarrow> dict" where
  "dict_update d [] = d"
| "dict_update d ((k, v) # other) = dict_update (AList.update k v d) other"

text \<open>
  The statement \<^verbatim>\<open>x.update(tf)\<close>, where \<^verbatim>\<open>tf\<close> is the value of the tenant field.
  Only a dictionary has the method \<^verbatim>\<open>update\<close> (\<^verbatim>\<open>AttributeError\<close> otherwise), and
  \<^verbatim>\<open>None\<close> is not iterable (\<^verbatim>\<open>TypeError\<close>).
\<close>

fun py_update :: "pyval \<Rightarrow> addr option \<Rightarrow> state \<Rightarrow> (error + unit) \<times> state" where
  "py_update (PyDict a) (Some p) s =
     (Inr (), s\<lparr>heap := (heap s)(a := dict_update (heap s a) (heap s p))\<rparr>)"
| "py_update (PyDict a) None s = (Inl TypeError, s)"
| "py_update _ _ s = (Inl AttributeError, s)"

text \<open>A dictionary display \<^verbatim>\<open>{...}\<close> creates a new object.\<close>

definition new_dict :: "dict \<Rightarrow> state \<Rightarrow> pyval \<times> state" where
  "new_dict d s =
     (PyDict (next_addr s),
      s\<lparr>heap := (heap s)(next_addr s := d), next_addr := Suc (next_addr s)\<rparr>)"

text \<open>The positional arguments of a call \<^verbatim>\<open>f(*x)\<close>: the elements of a tuple or list,
  the keys of a dictionary.\<close>

fun star_args :: "state \<Rightarrow> pyval \<Rightarrow> pyval list" where
  "star_args s (PyTuple xs) = xs"
| "star_args s (PyList xs) = xs"
| "star_args s (PyDict a) = map (\<lambda>kv. PyStr (fst kv)) (heap s a)"
| "star_args s _ = []"

section \<open>Database\<close>

text \<open>The property \<^verbatim>\<open>tenant_field\<close> of \<^verbatim>\<open>Database\<close>: getter and setter.\<close>

definition tenant_field :: "state \<Rightarrow> db_ref \<Rightarrow> addr option" where
  "tenant_field s db = tenant_fields s db"


text \<open>
  \<^verbatim>\<open>__getattr__\<close> first asks the driver's class. What the driver answered is an input
  here: one of its own collection objects with its full name, or anything else.
\<close>

datatype driver_attr = DriverCollection string | DriverOther pyval



section \<open>Collection\<close>

text \<open>
  Each method takes the values of its parameters after Python has bound the arguments of
  the call, the state, and returns its outcome and the new state. The calls of
  \<^verbatim>\<open>logging.error\<close> in \<^verbatim>\<open>find_one\<close> and \<^verbatim>\<open>find\<close> only format the tenant field or
  the arguments for the log; they are left out.
\<close>


definition Collection_save ::
  "collection \<Rightarrow> pyval \<Rightarrow> pyval \<Rightarrow> pyval \<Rightarrow> pyval \<Rightarrow> (string \<times> pyval) list \<Rightarrow> state
    \<Rightarrow> outcome \<times> state" where
  "Collection_save self to_save manipulate safe check_keys kw s =
     (if \<not> isinstance_dict to_save then (Raise TypeError, s)
      else
        case (if truthy s (tenant_field s (database self))
              then py_update to_save (tenant_field s (database self)) s
              else (Inr (), s)) of
          (Inl e, s1) \<Rightarrow> (Raise e, s1)
        | (Inr _, s1) \<Rightarrow>
            (Delegate \<lparr>call_target = self, call_method = Driver_save,
               call_args = [to_save, manipulate, safe, check_keys], call_kwargs = kw\<rparr>, s1))"

text \<open>
  The loop of \<^verbatim>\<open>insert\<close> over a sequence of documents. Its body updates the document
  and then evaluates \<^verbatim>\<open>updated_docsa.append(doc)\<close>; no name \<^verbatim>\<open>updated_docsa\<close> is bound
  anywhere in the module, so this statement raises \<^verbatim>\<open>NameError\<close> and the loop never
  reaches a second document.
\<close>

fun insert_docs :: "pyval list \<Rightarrow> addr option \<Rightarrow> state \<Rightarrow> (error + unit) \<times> state" where
  "insert_docs [] tf s = (Inr (), s)"
| "insert_docs (doc # docs) tf s =
     (case py_update doc tf s of
        (Inl e, s1) \<Rightarrow> (Inl e, s1)
      | (Inr _, s1) \<Rightarrow> (Inl NameError, s1))"

text \<open>
  The driver's \<^verbatim>\<open>save\<close> has the parameters of the wrapper's \<^verbatim>\<open>save\<close>, which overrides
  it and passes them on one for one: \<^verbatim>\<open>to_save\<close>, \<^verbatim>\<open>manipulate\<close>, \<^verbatim>\<open>safe\<close>,
  \<^verbatim>\<open>check_keys\<close> and \<^verbatim>\<open>**kwargs\<close>. Python binds the arguments of a call before it
  enters the method: a fifth positional argument, a keyword argument naming a parameter
  that a positional argument already fills, or no value for \<^verbatim>\<open>to_save\<close> is a
  \<^verbatim>\<open>TypeError\<close>, and the driver's method is not entered.
\<close>

definition call_driver_save ::
  "collection \<Rightarrow> pyval list \<Rightarrow> (string \<times> pyval) list \<Rightarrow> state \<Rightarrow> outcome \<times> state" where
  "call_driver_save self args kw s =
     (if 4 < length args
         \<or> list_ex (\<lambda>k. k \<in> fst ` set kw)
              (take (length args) [''to_save'', ''manipulate'', ''safe'', ''check_keys''])
         \<or> (args = [] \<and> ''to_save'' \<notin> fst ` set kw)
      then (Raise TypeError, s)
      else
        (Delegate \<lparr>call_target = self, call_method = Driver_save,
           call_args = args, call_kwargs = kw\<rparr>, s))"

text \<open>
  \<^verbatim>\<open>insert\<close> returns the result of the driver's \<^verbatim>\<open>save\<close>, which it calls with five
  positional arguments, and only inside the branch of a true tenant field; otherwise the
  body ends without a \<^verbatim>\<open>return\<close> and the call yields \<^verbatim>\<open>None\<close>.
\<close>

definition Collection_insert ::
  "collection \<Rightarrow> pyval \<Rightarrow> pyval \<Rightarrow> pyval \<Rightarrow> pyval \<Rightarrow> pyval \<Rightarrow> (string \<times> pyval) list \<Rightarrow> state
    \<Rightarrow> outcome \<times> state" where
  "Collection_insert self doc_or_docs manipulate safe check_keys continue_on_error kw s =
     (if truthy s (tenant_field s (database self)) then
        case (case doc_or_docs of
                PyList docs \<Rightarrow> insert_docs docs (tenant_field s (database self)) s
              | PyTuple docs \<Rightarrow> insert_docs docs (tenant_field s (database self)) s
              | _ \<Rightarrow> py_update doc_or_docs (tenant_field s (database self)) s) of
          (Inl e, s1) \<Rightarrow> (Raise e, s1)
        | (Inr _, s1) \<Rightarrow>
            call_driver_save self
              [doc_or_docs, manipulate, safe, check_keys, continue_on_error] kw s1
      else (Return PyNone, s))"

text \<open>\<^verbatim>\<open>update\<close> tests the tenant field with \<^verbatim>\<open>is not None\<close>, not for its truth value.\<close>

definition Collection_update ::
  "collection \<Rightarrow> pyval \<Rightarrow> pyval \<Rightarrow> pyval \<Rightarrow> pyval \<Rightarrow> pyval \<Rightarrow> pyval \<Rightarrow> pyval
    \<Rightarrow> (string \<times> pyval) list \<Rightarrow> state \<Rightarrow> outcome \<times> state" where
  "Collection_update self spec document upsert manipulate safe multi check_keys kw s =
     (if \<not> isinstance_dict spec then (Raise TypeError, s)
      else if \<not> isinstance_dict document then (Raise TypeError, s)
      else
        case (if tenant_field s (database self) \<noteq> None then
                (case py_update spec (tenant_field s (database self)) s of
                   (Inl e, s1) \<Rightarrow> (Inl e, s1)
                 | (Inr _, s1) \<Rightarrow> py_update document (tenant_field s1 (database self)) s1)
              else (Inr (), s)) of
          (Inl e, s2) \<Rightarrow> (Raise e, s2)
        | (Inr _, s2) \<Rightarrow>
            (Delegate \<lparr>call_target = self, call_method = Driver_update,
               call_args = [spec, document, upsert, manipulate, safe, multi, check_keys],
               call_kwargs = kw\<rparr>, s2))"

text \<open>
  \<^verbatim>\<open>remove\<close> and \<^verbatim>\<open>find_one\<close>: under a true tenant field, anything that is not a
  dictionary (\<^verbatim>\<open>None\<close>, the default, included) is replaced by a new dictionary
  \<^verbatim>\<open>{"_id": spec_or_id}\<close> before the tenant field is merged in.
\<close>

definition Collection_remove ::
  "collection \<Rightarrow> pyval \<Rightarrow> pyval \<Rightarrow> (string \<times> pyval) list \<Rightarrow> state \<Rightarrow> outcome \<times> state" where
  "Collection_remove self spec_or_id safe kw s =
     (if truthy s (tenant_field s (database self)) then
        case (if \<not> isinstance_dict spec_or_id then new_dict [(''_id'', spec_or_id)] s
              else (spec_or_id, s)) of
          (spec, s1) \<Rightarrow>
            (case py_update spec (tenant_field s1 (database self)) s1 of
               (Inl e, s2) \<Rightarrow> (Raise e, s2)
             | (Inr _, s2) \<Rightarrow>
                 (Delegate \<lparr>call_target = self, call_method = Driver_remove,
                    call_args = [spec, safe], call_kwargs = kw\<rparr>, s2))
      else
        (Delegate \<lparr>call_target = self, call_method = Driver_remove,
           call_args = [spec_or_id, safe], call_kwargs = kw\<rparr>, s))"

definition Collection_find_one ::
  "collection \<Rightarrow> pyval \<Rightarrow> pyval list \<Rightarrow> (string \<times> pyval) list \<Rightarrow> state \<Rightarrow> outcome \<times> state" where
  "Collection_find_one self spec_or_id args kw s =
     (if truthy s (tenant_field s (database self)) then
        case (if \<not> isinstance_dict spec_or_id then new_dict [(''_id'', spec_or_id)] s
              else (spec_or_id, s)) of
          (spec, s1) \<Rightarrow>
            (case py_update spec (tenant_field s1 (database self)) s1 of
               (Inl e, s2) \<Rightarrow> (Raise e, s2)
             | (Inr _, s2) \<Rightarrow>
                 (Delegate \<lparr>call_target = self, call_method = Driver_find_one,
                    call_args = spec # args, call_kwargs = kw\<rparr>, s2))
      else
        (Delegate \<lparr>call_target = self, call_method = Driver_find_one,
           call_args = spec_or_id # args, call_kwargs = kw\<rparr>, s))"

text \<open>
  \<^verbatim>\<open>find(self, *args, **kwargs)\<close>: the local \<^verbatim>\<open>args\<close> is the tuple of the positional
  arguments. Under a true tenant field it is replaced by a new empty dictionary when it
  is the empty tuple; then \<^verbatim>\<open>args.update\<close> is called on it, and the driver is called
  with \<^verbatim>\<open>*args\<close>.
\<close>

definition Collection_find ::
  "collection \<Rightarrow> pyval list \<Rightarrow> (string \<times> pyval) list \<Rightarrow> state \<Rightarrow> outcome \<times> state" where
  "Collection_find self args kw s =
     (if truthy s (tenant_field s (database self)) then
        case (if args = [] then new_dict [] s else (PyTuple args, s)) of
          (args1, s1) \<Rightarrow>
            (case py_update args1 (tenant_field s1 (database self)) s1 of
               (Inl e, s2) \<Rightarrow> (Raise e, s2)
             | (Inr _, s2) \<Rightarrow>
                 (Delegate \<lparr>call_target = self, call_method = Driver_find,
                    call_args = star_args s2 args1, call_kwargs = kw\<rparr>, s2))
      else
        (Delegate \<lparr>call_target = self, call_method = Driver_find,
           call_args = args, call_kwargs = kw\<rparr>, s))"

text \<open>
  The default value \<^verbatim>\<open>{}\<close> of the parameter \<^verbatim>\<open>query\<close> of \<^verbatim>\<open>find_and_modify\<close> is one
  dictionary object, created when the \<^verbatim>\<open>def\<close> statement ran and used by every call
  that omits the argument (\<open>None\<close> below).
\<close>

definition find_and_modify_default :: addr where
  "find_and_modify_default = 0"

definition Collection_find_and_modify ::
  "collection \<Rightarrow> pyval option \<Rightarrow> pyval \<Rightarrow> pyval \<Rightarrow> pyval \<Rightarrow> (string \<times> pyval) list \<Rightarrow> state
    \<Rightarrow> outcome \<times> state" where
  "Collection_find_and_modify self query_arg update upsert sort_arg kw s =
     (case (case query_arg of None \<Rightarrow> PyDict find_and_modify_default | Some q \<Rightarrow> q) of
        query \<Rightarrow>
          if truthy s (tenant_field s (database self)) then
            case py_update query (tenant_field s (database self)) s of
              (Inl e, s1) \<Rightarrow> (Raise e, s1)
            | (Inr _, s1) \<Rightarrow>
                (case (if \<not> isinstance_dict update then new_dict [] s1 else (update, s1)) of
                   (update1, s2) \<Rightarrow>
                     (case py_update update1 (tenant_field s2 (database self)) s2 of
                        (Inl e, s3) \<Rightarrow> (Raise e, s3)
                      | (Inr _, s3) \<Rightarrow>
                          (Delegate \<lparr>call_target = self, call_method = Driver_find_and_modify,
                             call_args = [query, update1, upsert, sort_arg], call_kwargs = kw\<rparr>, s3)))
          else
            (Delegate \<lparr>call_target = self, call_method = Driver_find_and_modify,
               call_args = [query, update, upsert, sort_arg], call_kwargs = kw\<rparr>, s))"

subsection \<open>\<^verbatim>\<open>find_one_or_404\<close>\<close>

text \<open>
  \<^verbatim>\<open>find_one_or_404\<close> uses the result of \<^verbatim>\<open>self.find_one\<close>, so the driver is a
  parameter here: any function from a call and a state to a result, an exception or a
  value, and a state. \<^verbatim>\<open>complete\<close> gives the result of a wrapper method from its
  outcome.
\<close>

type_synonym driver = "call \<Rightarrow> state \<Rightarrow> (error + pyval) \<times> state"

fun complete :: "driver \<Rightarrow> outcome \<times> state \<Rightarrow> (error + pyval) \<times> state" where
  "complete drv (Raise e, s) = (Inl e, s)"
| "complete drv (Return v, s) = (Inr v, s)"
| "complete drv (Delegate c, s) = drv c s"

text \<open>
  The call \<^verbatim>\<open>self.find_one(*args, **kwargs)\<close> binds the first positional argument, or
  else the keyword \<^verbatim>\<open>spec_or_id\<close>, to the parameter \<^verbatim>\<open>spec_or_id\<close>, whose default is
  \<^verbatim>\<open>None\<close>; a value for it given both ways is a \<^verbatim>\<open>TypeError\<close>.
\<close>

definition call_find_one ::
  "collection \<Rightarrow> pyval list \<Rightarrow> (string \<times> pyval) list \<Rightarrow> state \<Rightarrow> outcome \<times> state" where
  "call_find_one self args kw s =
     (case args of
        [] \<Rightarrow>
          (case map_of kw ''spec_or_id'' of
             None \<Rightarrow> Collection_find_one self PyNone [] kw s
           | Some v \<Rightarrow>
               Collection_find_one self v [] (filter (\<lambda>kv. fst kv \<noteq> ''spec_or_id'') kw) s)
      | a # rest \<Rightarrow>
          if ''spec_or_id'' \<in> fst ` set kw then (Raise TypeError, s)
          else Collection_find_one self a rest kw s)"

text \<open>\<^verbatim>\<open>flask.abort(code)\<close> raises the HTTP exception of the status code; the state
  records every call of it.\<close>

definition abort :: "int \<Rightarrow> state \<Rightarrow> (error + pyval) \<times> state" where
  "abort code s = (Inl (HTTPException code), s\<lparr>aborts := aborts s @ [code]\<rparr>)"

definition Collection_find_one_or_404 ::
  "driver \<Rightarrow> collection \<Rightarrow> pyval list \<Rightarrow> (string \<times> pyval) list \<Rightarrow> state
    \<Rightarrow> (error + pyval) \<times> state" where
  "Collection_find_one_or_404 drv self args kw s =
     (case complete drv (call_find_one self args kw s) of
        (Inl e, s1) \<Rightarrow> (Inl e, s1)
      | (Inr found, s1) \<Rightarrow>
          (case (if found = PyNone then abort 404 s1 else (Inr PyNone, s1)) of
             (Inl e, s2) \<Rightarrow> (Inl e, s2)
           | (Inr _, s2) \<Rightarrow> (Inr found, s2)))"

section \<open>Vocabulary of the properties\<close>

text \<open>\<open>has_pairs d p\<close>: the dictionary \<open>d\<close> has every key of \<open>p\<close>, with the value it has
  in \<open>p\<close>.\<close>

definition has_pairs :: "dict \<Rightarrow> dict \<Rightarrow> bool" where
  "has_pairs d p = list_all (\<lambda>kv. map_of d (fst kv) = Some (snd kv)) p"

text \<open>\<open>merged_state a p s\<close>: the state \<open>s\<close> after the dictionary at address \<open>a\<close>, and nothing
  else, was updated with the dictionary at address \<open>p\<close>.\<close>

definition merged_state :: "addr \<Rightarrow> addr \<Rightarrow> state \<Rightarrow> state" where
  "merged_state a p s = s\<lparr>heap := (heap s)(a := dict_update (heap s a) (heap s p))\<rparr>"


text \<open>The pairs of the tenant field that a collection reads through its database; none
  when it is \<^verbatim>\<open>None\<close>.\<close>

definition tenant_pairs :: "state \<Rightarrow> collection \<Rightarrow> dict" where
  "tenant_pairs s self =
     (case tenant_field s (database self) of None \<Rightarrow> [] | Some p \<Rightarrow> heap s p)"

text \<open>Two drivers for the examples: the first finds no document, whatever the call; the
  second answers every call with the document at address 3.\<close>

definition no_document_driver :: driver where
  "no_document_driver c s = (Inr PyNone, s)"

definition one_document_driver :: driver where
  "one_document_driver c s = (Inr (PyDict 3), s)"

text \<open>
  An example state. Address 0 is the default query of \<^verbatim>\<open>find_and_modify\<close>, address 1
  the dictionary \<^verbatim>\<open>{"tenant": "t1"}\<close>, addresses 2 and 3 two documents and address 4 the
  dictionary \<^verbatim>\<open>{"org": "o2"}\<close>. Database 0 has the tenant field at address 1, database 2
  the one at address 4, and the tenant field of every other database is \<^verbatim>\<open>None\<close>.
\<close>

definition example_state :: state where
  "example_state =
     \<lparr>heap = (\<lambda>a. [])
        (1 := [(''tenant'', PyStr ''t1'')],
         2 := [(''name'', PyStr ''a'')],
         3 := [(''name'', PyStr ''b'')],
         4 := [(''org'', PyStr ''o2'')]),
      next_addr = 5,
      tenant_fields = (\<lambda>db. None)(0 := Some 1, 2 := Some 4),
      aborts = []\<rparr>"

text \<open>The example state with \<^verbatim>\<open>{"tenant": "t2"}\<close> as the tenant field of database 2:
  two tenants that differ in the value of one key.\<close>

definition same_key_state :: state where
  "same_key_state =
     example_state\<lparr>heap := (heap example_state)(4 := [(''tenant'', PyStr ''t2'')])\<rparr>"

definition users :: collection where
  "users = \<lparr>database = 0, name = ''users''\<rparr>"

definition logs :: collection where
  "logs = \<lparr>database = 1, name = ''logs''\<rparr>"

definition orders :: collection where
  "orders = \<lparr>database = 2, name = ''orders''\<rparr>"

section \<open>Dictionary update\<close>

lemma dict_update_other_key:
  "k \<notin> fst ` set p \<Longrightarrow> map_of (dict_update d p) k = map_of d k"
  by (induction d p rule: dict_update.induct) (auto simp: AList.update_conv')

lemma dict_update_triv: "has_pairs d p \<Longrightarrow> dict_update d p = d"
  by (induction d p rule: dict_update.induct) (auto simp: has_pairs_def AList.update_triv)

lemma has_pairs_refl: "distinct (map fst p) \<Longrightarrow> has_pairs p p"
  by (induction p) (auto simp: has_pairs_def list_all_iff rev_image_eqI)

lemma dict_update_has_pairs: "distinct (map fst p) \<Longrightarrow> has_pairs (dict_update d p) p"
proof (induction d p rule: dict_update.induct)
  case (1 d)
  then show ?case by (simp add: has_pairs_def)
next
  case (2 d k v other)
  then have "k \<notin> fst ` set other" and "has_pairs (dict_update (AList.update k v d) other) other"
    by auto
  then show ?case
    by (simp add: has_pairs_def dict_update_other_key AList.update_conv')
qed

text \<open>An update keeps a dictionary well formed.\<close>

lemma dict_update_distinct:
  "distinct (map fst d) \<Longrightarrow> distinct (map fst (dict_update d p))"
  by (induction d p rule: dict_update.induct) (auto simp: AList.distinct_update)

lemma dict_update_self: "distinct (map fst p) \<Longrightarrow> dict_update p p = p"
  by (simp add: dict_update_triv has_pairs_refl)

section \<open>Calls on a database whose tenant field is unset\<close>

text \<open>
  When the tenant field of the owning database is \<^verbatim>\<open>None\<close>, \<^verbatim>\<open>save\<close>, \<^verbatim>\<open>update\<close>,
  \<^verbatim>\<open>remove\<close>, \<^verbatim>\<open>find_one\<close>, \<^verbatim>\<open>find\<close> and \<^verbatim>\<open>find_and_modify\<close> leave the state as it
  is and call the driver with the arguments they were given, \<^verbatim>\<open>save\<close> and \<^verbatim>\<open>update\<close>
  when these are dictionaries. For an omitted query \<^verbatim>\<open>find_and_modify\<close> hands over the
  default object, with whatever it holds.
\<close>

lemma unset_predicate_passes_arguments:
  assumes "tenant_field s (database self) = None"
  shows
    "Collection_save self to_save manipulate safe check_keys kw s =
       (if isinstance_dict to_save
        then Delegate \<lparr>call_target = self, call_method = Driver_save,
               call_args = [to_save, manipulate, safe, check_keys], call_kwargs = kw\<rparr>
        else Raise TypeError, s)
     \<and> Collection_update self spec document upsert manipulate safe multi check_keys kw s =
       (if isinstance_dict spec \<and> isinstance_dict document
        then Delegate \<lparr>call_target = self, call_method = Driver_update,
               call_args = [spec, document, upsert, manipulate, safe, multi, check_keys],
               call_kwargs = kw\<rparr>
        else Raise TypeError, s)
     \<and> Collection_remove self spec_or_id safe kw s =
       (Delegate \<lparr>call_target = self, call_method = Driver_remove,
          call_args = [spec_or_id, safe], call_kwargs = kw\<rparr>, s)
     \<and> Collection_find_one self spec_or_id args kw s =
       (Delegate \<lparr>call_target = self, call_method = Driver_find_one,
          call_args = spec_or_id # args, call_kwargs = kw\<rparr>, s)
     \<and> Collection_find self args kw s =
       (Delegate \<lparr>call_target = self, call_method = Driver_find,
          call_args = args, call_kwargs = kw\<rparr>, s)
     \<and> Collection_find_and_modify self (Some query) update upsert sort_arg kw s =
       (Delegate \<lparr>call_target = self, call_method = Driver_find_and_modify,
          call_args = [query, update, upsert, sort_arg], call_kwargs = kw\<rparr>, s)
     \<and> Collection_find_and_modify self None update upsert sort_arg kw s =
       (Delegate \<lparr>call_target = self, call_method = Driver_find_and_modify,
          call_args = [PyDict find_and_modify_default, update, upsert, sort_arg],
          call_kwargs = kw\<rparr>, s)"
  using assms
  by (simp add: Collection_save_def Collection_update_def Collection_remove_def
      Collection_find_one_def Collection_find_def Collection_find_and_modify_def)

text \<open>
  C1. Two calls on database 1, whose tenant field is \<^verbatim>\<open>None\<close>, in which the driver does
  not receive the arguments of the caller. First, \<^verbatim>\<open>insert\<close> of the document at address
  3 makes no call of the driver: it returns \<^verbatim>\<open>None\<close>. Second, \<^verbatim>\<open>find_and_modify\<close>
  without a query on database 0, whose tenant field is \<^verbatim>\<open>{"tenant": "t1"}\<close>, leaves that
  pair in the default query object; a following \<^verbatim>\<open>find_and_modify\<close> without a query on
  database 1 hands this object to the driver, so the driver receives the query
  \<^verbatim>\<open>{"tenant": "t1"}\<close>, which the caller did not supply.
\<close>

theorem unset_predicate_defects_at_failing_inputs:
  "tenant_field example_state (database logs) = None
   \<and> Collection_insert logs (PyDict 3) (PyBool True) PyNone (PyBool True) (PyBool False) []
       example_state =
     (Return PyNone, example_state)
   \<and> Collection_find_and_modify users None (PyDict 2) (PyBool False) PyNone [] example_state =
     (Delegate \<lparr>call_target = users, call_method = Driver_find_and_modify,
        call_args = [PyDict find_and_modify_default, PyDict 2, PyBool False, PyNone],
        call_kwargs = []\<rparr>,
      example_state\<lparr>heap := (heap example_state)
        (find_and_modify_default := [(''tenant'', PyStr ''t1'')],
         2 := [(''name'', PyStr ''a''), (''tenant'', PyStr ''t1'')])\<rparr>)
   \<and> tenant_field
       (example_state\<lparr>heap := (heap example_state)
          (find_and_modify_default := [(''tenant'', PyStr ''t1'')],
           2 := [(''name'', PyStr ''a''), (''tenant'', PyStr ''t1'')])\<rparr>)
       (database logs) = None
   \<and> Collection_find_and_modify logs None (PyDict 3) (PyBool False) PyNone []
       (example_state\<lparr>heap := (heap example_state)
          (find_and_modify_default := [(''tenant'', PyStr ''t1'')],
           2 := [(''name'', PyStr ''a''), (''tenant'', PyStr ''t1'')])\<rparr>) =
     (Delegate \<lparr>call_target = logs, call_method = Driver_find_and_modify,
        call_args = [PyDict find_and_modify_default, PyDict 3, PyBool False, PyNone],
        call_kwargs = []\<rparr>,
      example_state\<lparr>heap := (heap example_state)
        (find_and_modify_default := [(''tenant'', PyStr ''t1'')],
         2 := [(''name'', PyStr ''a''), (''tenant'', PyStr ''t1'')])\<rparr>)
   \<and> heap
       (example_state\<lparr>heap := (heap example_state)
          (find_and_modify_default := [(''tenant'', PyStr ''t1'')],
           2 := [(''name'', PyStr ''a''), (''tenant'', PyStr ''t1'')])\<rparr>)
       find_and_modify_default = [(''tenant'', PyStr ''t1'')]"
  by (simp add: Collection_insert_def Collection_find_and_modify_def tenant_field_def
      example_state_def users_def logs_def find_and_modify_default_def)

section \<open>Arguments that are not dictionaries\<close>

text \<open>
  C5. \<^verbatim>\<open>save\<close> of a document that is not a dictionary, and \<^verbatim>\<open>update\<close> with a spec or
  an update document that is not a dictionary, raise \<^verbatim>\<open>TypeError\<close>: the outcome is the
  exception, not a call of the driver, and the state is the one of the call. Nothing is
  assumed about the tenant field.
\<close>

theorem non_mapping_arguments_raise_TypeError:
  "(\<not> isinstance_dict to_save \<longrightarrow>
      Collection_save self to_save manipulate safe check_keys kw s = (Raise TypeError, s))
   \<and> (\<not> isinstance_dict spec \<longrightarrow>
      Collection_update self spec document upsert manipulate safe multi check_keys kw s =
        (Raise TypeError, s))
   \<and> (\<not> isinstance_dict document \<longrightarrow>
      Collection_update self spec document upsert manipulate safe multi check_keys kw s =
        (Raise TypeError, s))"
  by (simp add: Collection_save_def Collection_update_def)

theorem non_mapping_arguments_raise_TypeError_witness:
  "\<not> isinstance_dict (PyInt 5)
   \<and> Collection_save users (PyInt 5) (PyBool True) PyNone (PyBool True) [] example_state =
       (Raise TypeError, example_state)
   \<and> \<not> isinstance_dict PyNone
   \<and> \<not> isinstance_dict (PyStr ''x'')
   \<and> Collection_update users PyNone (PyStr ''x'') (PyBool False) (PyBool True) PyNone
         (PyBool False) (PyBool True) [] example_state = (Raise TypeError, example_state)"
  using non_mapping_arguments_raise_TypeError [where to_save = "PyInt 5" and self = users
      and manipulate = "PyBool True" and safe = PyNone and check_keys = "PyBool True"
      and kw = "[]" and s = example_state and spec = PyNone and document = "PyStr ''x''"
      and upsert = "PyBool False" and multi = "PyBool False"]
  by simp

section \<open>The state after a merge\<close>

lemma py_update_merged:
  "py_update (PyDict a) (Some p) s = (Inr (), merged_state a p s)"
  by (simp add: merged_state_def)

lemma merged_state_fields [simp]:
  "tenant_fields (merged_state a p s) = tenant_fields s"
  "next_addr (merged_state a p s) = next_addr s"
  "aborts (merged_state a p s) = aborts s"
  by (simp_all add: merged_state_def)

lemma merged_state_pred:
  "distinct (map fst (heap s p)) \<Longrightarrow> heap (merged_state a p s) p = heap s p"
  by (cases "p = a") (simp_all add: merged_state_def dict_update_self)

lemma merged_state_has_pairs:
  "distinct (map fst (heap s p)) \<Longrightarrow> has_pairs (heap (merged_state a p s) a) (heap s p)"
  by (simp add: merged_state_def dict_update_has_pairs)

lemma merged_state_keeps_pairs:
  assumes "distinct (map fst (heap s p))" and "has_pairs (heap s x) (heap s p)"
  shows "has_pairs (heap (merged_state a p s) x) (heap s p)"
  using assms by (cases "x = a") (simp_all add: merged_state_def dict_update_has_pairs)

lemma example_users:
  "tenant_field example_state (database users) = Some 1"
  "heap example_state 1 \<noteq> []"
  "distinct (map fst (heap example_state 1))"
  "heap example_state 1 = [(''tenant'', PyStr ''t1'')]"
  by (simp_all add: tenant_field_def example_state_def users_def)

section \<open>\<^verbatim>\<open>insert\<close>\<close>

text \<open>
  C2. \<^verbatim>\<open>insert\<close> at two inputs. On database 0, whose tenant field is
  \<^verbatim>\<open>{"tenant": "t1"}\<close>, the insert of the list of the documents at addresses 2 and 3
  raises \<^verbatim>\<open>NameError\<close> after it has updated the first document only; the driver is not
  called. On database 1, whose tenant field is \<^verbatim>\<open>None\<close>, the insert of the document at
  address 2 returns \<^verbatim>\<open>None\<close>; the driver is not called.
\<close>

theorem insert_defect_at_failing_inputs:
  "Collection_insert users (PyList [PyDict 2, PyDict 3]) (PyBool True) PyNone (PyBool True)
       (PyBool False) [] example_state =
     (Raise NameError,
      example_state\<lparr>heap := (heap example_state)
        (2 := [(''name'', PyStr ''a''), (''tenant'', PyStr ''t1'')])\<rparr>)
   \<and> Collection_insert logs (PyDict 2) (PyBool True) PyNone (PyBool True)
       (PyBool False) [] example_state =
     (Return PyNone, example_state)"
  by (simp add: Collection_insert_def tenant_field_def example_state_def users_def logs_def)

text \<open>The same holds for every non-empty list or tuple: under a true tenant field the
  insert raises, \<^verbatim>\<open>NameError\<close> when the first element is a dictionary and
  \<^verbatim>\<open>AttributeError\<close> when it is not, and the driver is not called.\<close>

lemma insert_docs_raises:
  "insert_docs (doc # docs) (Some p) s =
     (if isinstance_dict doc then Inl NameError else Inl AttributeError,
      snd (py_update doc (Some p) s))"
  by (cases doc) simp_all

lemma insert_sequence_raises:
  assumes "truthy s (tenant_field s (database self))"
  shows "\<exists>e s1.
      Collection_insert self (PyList (doc # docs)) manipulate safe check_keys
        continue_on_error kw s = (Raise e, s1)
      \<and> Collection_insert self (PyTuple (doc # docs)) manipulate safe check_keys
        continue_on_error kw s = (Raise e, s1)"
proof (cases "tenant_field s (database self)")
  case None
  with assms show ?thesis by simp
next
  case (Some p)
  with assms show ?thesis
    by (simp add: Collection_insert_def insert_docs_raises del: insert_docs.simps)
qed

text \<open>Whatever its arguments and whatever the tenant field, \<^verbatim>\<open>insert\<close> never calls the
  driver: the one call it attempts has a fifth positional argument.\<close>

lemma call_driver_save_five:
  "call_driver_save self [a1, a2, a3, a4, a5] kw s = (Raise TypeError, s)"
  by (simp add: call_driver_save_def)

lemma insert_makes_no_driver_call:
  "fst (Collection_insert self doc_or_docs manipulate safe check_keys continue_on_error kw s) \<noteq>
     Delegate c"
  by (simp add: Collection_insert_def call_driver_save_five split: prod.split sum.split)

section \<open>\<^verbatim>\<open>find\<close>\<close>

text \<open>
  C3. \<^verbatim>\<open>find\<close> at two inputs on database 0, whose tenant field is
  \<^verbatim>\<open>{"tenant": "t1"}\<close>. Without positional arguments the driver is called with the keys
  of a new dictionary as positional arguments: its query argument is the string
  \<^verbatim>\<open>"tenant"\<close>, not a dictionary. With the query at address 2 as positional argument
  the call raises \<^verbatim>\<open>AttributeError\<close>, a tuple having no method \<^verbatim>\<open>update\<close>, and the
  driver is not called.
\<close>

theorem find_defect_at_failing_inputs:
  "Collection_find users [] [] example_state =
     (Delegate \<lparr>call_target = users, call_method = Driver_find,
        call_args = [PyStr ''tenant''], call_kwargs = []\<rparr>,
      example_state\<lparr>heap := (heap example_state)(5 := [(''tenant'', PyStr ''t1'')]),
        next_addr := 6\<rparr>)
   \<and> Collection_find users [PyDict 2] [] example_state = (Raise AttributeError, example_state)"
  by (simp add: Collection_find_def tenant_field_def example_state_def users_def new_dict_def)

section \<open>The tenant field in queries\<close>

text \<open>
  For the other three querying operations the query that reaches the driver is a
  dictionary with every pair of the tenant field: for \<^verbatim>\<open>remove\<close> and \<^verbatim>\<open>find_one\<close>
  whatever the spec is, for \<^verbatim>\<open>find_and_modify\<close> when the query is a dictionary or
  is omitted.
\<close>

lemma set_predicate_in_queries:
  assumes tf: "tenant_field s (database self) = Some p"
    and ne: "heap s p \<noteq> []"
    and dist: "distinct (map fst (heap s p))"
    and alloc: "p < next_addr s"
  shows
    "\<exists>a. fst (Collection_remove self spec_or_id safe kw s) =
        Delegate \<lparr>call_target = self, call_method = Driver_remove,
          call_args = [PyDict a, safe], call_kwargs = kw\<rparr>
      \<and> has_pairs (heap (snd (Collection_remove self spec_or_id safe kw s)) a) (heap s p)"
    and "\<exists>a. fst (Collection_find_one self spec_or_id args kw s) =
        Delegate \<lparr>call_target = self, call_method = Driver_find_one,
          call_args = PyDict a # args, call_kwargs = kw\<rparr>
      \<and> has_pairs (heap (snd (Collection_find_one self spec_or_id args kw s)) a) (heap s p)"
proof -
  have tf': "tenant_fields s (database self) = Some p"
    using tf by (simp add: tenant_field_def)
  have new: "has_pairs (dict_update d (heap s p)) (heap s p)" for d
    using dist by (rule dict_update_has_pairs)
  show "\<exists>a. fst (Collection_remove self spec_or_id safe kw s) =
        Delegate \<lparr>call_target = self, call_method = Driver_remove,
          call_args = [PyDict a, safe], call_kwargs = kw\<rparr>
      \<and> has_pairs (heap (snd (Collection_remove self spec_or_id safe kw s)) a) (heap s p)"
    using tf' ne alloc new
    by (cases spec_or_id) (simp_all add: Collection_remove_def tenant_field_def new_dict_def)
  show "\<exists>a. fst (Collection_find_one self spec_or_id args kw s) =
        Delegate \<lparr>call_target = self, call_method = Driver_find_one,
          call_args = PyDict a # args, call_kwargs = kw\<rparr>
      \<and> has_pairs (heap (snd (Collection_find_one self spec_or_id args kw s)) a) (heap s p)"
    using tf' ne alloc new
    by (cases spec_or_id) (simp_all add: Collection_find_one_def tenant_field_def new_dict_def)
qed

lemma find_and_modify_query_after_call:
  assumes tf: "tenant_field s (database self) = Some p"
    and ne: "heap s p \<noteq> []"
    and dist: "distinct (map fst (heap s p))"
    and alloc: "q < next_addr s"
  shows "(\<exists>u. fst (Collection_find_and_modify self (Some (PyDict q)) update upsert sort_arg kw s) =
       Delegate \<lparr>call_target = self, call_method = Driver_find_and_modify,
         call_args = [PyDict q, u, upsert, sort_arg], call_kwargs = kw\<rparr>)
     \<and> has_pairs
       (heap (snd (Collection_find_and_modify self (Some (PyDict q)) update upsert sort_arg kw s)) q)
       (heap s p)"
proof -
  let ?s1 = "merged_state q p s"
  have tf': "tenant_fields s (database self) = Some p"
    using tf by (simp add: tenant_field_def)
  have p1: "heap ?s1 p = heap s p"
    using dist by (rule merged_state_pred)
  have h1: "has_pairs (heap ?s1 q) (heap s p)"
    using dist by (rule merged_state_has_pairs)
  show ?thesis
  proof (cases update)
    case (PyDict u)
    have "has_pairs (heap (merged_state u p ?s1) q) (heap s p)"
      using merged_state_keeps_pairs [of ?s1 p q u] dist p1 h1 by simp
    with PyDict tf' ne p1 show ?thesis
      by (simp add: Collection_find_and_modify_def tenant_field_def py_update_merged
          del: py_update.simps)
  qed (use tf' ne h1 alloc in \<open>simp_all add: Collection_find_and_modify_def tenant_field_def
        merged_state_def new_dict_def\<close>)
qed

lemma find_and_modify_omitted_query:
  "Collection_find_and_modify self None update upsert sort_arg kw s =
   Collection_find_and_modify self (Some (PyDict find_and_modify_default)) update upsert sort_arg kw s"
  by (simp add: Collection_find_and_modify_def split: prod.split sum.split)

section \<open>The tenant field in written documents\<close>

text \<open>
  Let the tenant field of the owning database be the non-empty dictionary at address
  \<open>p\<close>. \<^verbatim>\<open>save\<close> of a dictionary calls the driver with that dictionary, which then has
  every pair of the tenant field. \<^verbatim>\<open>update\<close> with a dictionary as spec and as update
  document calls the driver with both, and both have every pair of the tenant field.
\<close>

lemma set_predicate_in_saved_and_updated_documents:
  assumes tf: "tenant_field s (database self) = Some p"
    and ne: "heap s p \<noteq> []"
    and dist: "distinct (map fst (heap s p))"
  shows
    "fst (Collection_save self (PyDict a) manipulate safe check_keys kw s) =
       Delegate \<lparr>call_target = self, call_method = Driver_save,
         call_args = [PyDict a, manipulate, safe, check_keys], call_kwargs = kw\<rparr>
     \<and> has_pairs (heap (snd (Collection_save self (PyDict a) manipulate safe check_keys kw s)) a)
         (heap s p)
     \<and> fst (Collection_update self (PyDict a) (PyDict b) upsert manipulate safe multi
              check_keys kw s) =
       Delegate \<lparr>call_target = self, call_method = Driver_update,
         call_args = [PyDict a, PyDict b, upsert, manipulate, safe, multi, check_keys],
         call_kwargs = kw\<rparr>
     \<and> has_pairs (heap (snd (Collection_update self (PyDict a) (PyDict b) upsert manipulate safe
           multi check_keys kw s)) a) (heap s p)
     \<and> has_pairs (heap (snd (Collection_update self (PyDict a) (PyDict b) upsert manipulate safe
           multi check_keys kw s)) b) (heap s p)"
proof -
  have save: "fst (Collection_save self (PyDict a) manipulate safe check_keys kw s) =
       Delegate \<lparr>call_target = self, call_method = Driver_save,
         call_args = [PyDict a, manipulate, safe, check_keys], call_kwargs = kw\<rparr>
     \<and> has_pairs (heap (snd (Collection_save self (PyDict a) manipulate safe check_keys kw s)) a)
         (heap s p)"
    using tf ne by (simp add: Collection_save_def dict_update_has_pairs [OF dist])
  have upd: "fst (Collection_update self (PyDict a) (PyDict b) upsert manipulate safe multi
              check_keys kw s) =
       Delegate \<lparr>call_target = self, call_method = Driver_update,
         call_args = [PyDict a, PyDict b, upsert, manipulate, safe, multi, check_keys],
         call_kwargs = kw\<rparr>
     \<and> has_pairs (heap (snd (Collection_update self (PyDict a) (PyDict b) upsert manipulate safe
           multi check_keys kw s)) a) (heap s p)
     \<and> has_pairs (heap (snd (Collection_update self (PyDict a) (PyDict b) upsert manipulate safe
           multi check_keys kw s)) b) (heap s p)"
    using tf dist
    by (auto simp: Collection_update_def tenant_field_def dict_update_has_pairs dict_update_self
        has_pairs_refl)
  from save upd show ?thesis by blast
qed

text \<open>
  C4. \<^verbatim>\<open>insert\<close> at two inputs on database 0, whose tenant field is
  \<^verbatim>\<open>{"tenant": "t1"}\<close>. The insert of the document at address 2 merges the tenant field
  into it and then calls the driver's \<^verbatim>\<open>save\<close> with five positional arguments: the
  call raises \<^verbatim>\<open>TypeError\<close> and the document does not reach the driver. The insert of
  the tuple of the documents at addresses 2 and 3 raises \<^verbatim>\<open>NameError\<close> after the first
  document; the document at address 3 is as it was, without the pair of the tenant
  field, and no document reaches the driver.
\<close>

theorem insert_hands_no_document_to_driver:
  "Collection_insert users (PyDict 2) (PyBool True) PyNone (PyBool True) (PyBool False) []
       example_state =
     (Raise TypeError,
      example_state\<lparr>heap := (heap example_state)
        (2 := [(''name'', PyStr ''a''), (''tenant'', PyStr ''t1'')])\<rparr>)
   \<and> Collection_insert users (PyTuple [PyDict 2, PyDict 3]) (PyBool True) PyNone (PyBool True)
       (PyBool False) [] example_state =
     (Raise NameError,
      example_state\<lparr>heap := (heap example_state)
        (2 := [(''name'', PyStr ''a''), (''tenant'', PyStr ''t1'')])\<rparr>)
   \<and> heap
       (example_state\<lparr>heap := (heap example_state)
          (2 := [(''name'', PyStr ''a''), (''tenant'', PyStr ''t1'')])\<rparr>) 3 =
     [(''name'', PyStr ''b'')]"
  by (simp add: Collection_insert_def call_driver_save_def tenant_field_def example_state_def
      users_def)

section \<open>The merge mutates the caller's dictionaries\<close>

text \<open>
  Let the tenant field of the owning database be the non-empty dictionary at address
  \<open>p\<close>. \<^verbatim>\<open>save\<close>, \<^verbatim>\<open>remove\<close> and \<^verbatim>\<open>find_one\<close> of a dictionary at address \<open>a\<close> hand
  the same reference to the driver, and the only change of the state is that the
  dictionary at \<open>a\<close> was updated with the tenant field; \<^verbatim>\<open>update\<close> and
  \<^verbatim>\<open>find_and_modify\<close> do so for both of their dictionaries, at \<open>a\<close> and \<open>b\<close>.
  \<^verbatim>\<open>insert\<close> of a dictionary at \<open>a\<close> makes the same change of the state before its call
  of the driver fails. After the call the dictionaries at \<open>a\<close> and \<open>b\<close> have every pair
  of the tenant field.
\<close>

lemma set_predicate_merged_in_place:
  assumes tf: "tenant_field s (database self) = Some p"
    and ne: "heap s p \<noteq> []"
    and dist: "distinct (map fst (heap s p))"
  shows
    "Collection_save self (PyDict a) manipulate safe check_keys kw s =
       (Delegate \<lparr>call_target = self, call_method = Driver_save,
          call_args = [PyDict a, manipulate, safe, check_keys], call_kwargs = kw\<rparr>,
        merged_state a p s)
     \<and> Collection_insert self (PyDict a) manipulate safe check_keys continue_on_error kw s =
       (Raise TypeError, merged_state a p s)
     \<and> Collection_remove self (PyDict a) safe kw s =
       (Delegate \<lparr>call_target = self, call_method = Driver_remove,
          call_args = [PyDict a, safe], call_kwargs = kw\<rparr>,
        merged_state a p s)
     \<and> Collection_find_one self (PyDict a) args kw s =
       (Delegate \<lparr>call_target = self, call_method = Driver_find_one,
          call_args = PyDict a # args, call_kwargs = kw\<rparr>,
        merged_state a p s)
     \<and> Collection_update self (PyDict a) (PyDict b) upsert manipulate safe multi check_keys kw s =
       (Delegate \<lparr>call_target = self, call_method = Driver_update,
          call_args = [PyDict a, PyDict b, upsert, manipulate, safe, multi, check_keys],
          call_kwargs = kw\<rparr>,
        merged_state b p (merged_state a p s))
     \<and> Collection_find_and_modify self (Some (PyDict a)) (PyDict b) upsert sort_arg kw s =
       (Delegate \<lparr>call_target = self, call_method = Driver_find_and_modify,
          call_args = [PyDict a, PyDict b, upsert, sort_arg], call_kwargs = kw\<rparr>,
        merged_state b p (merged_state a p s))
     \<and> has_pairs (heap (merged_state a p s) a) (heap s p)
     \<and> has_pairs (heap (merged_state b p (merged_state a p s)) a) (heap s p)
     \<and> has_pairs (heap (merged_state b p (merged_state a p s)) b) (heap s p)"
proof -
  have tf': "tenant_fields s (database self) = Some p"
    using tf by (simp add: tenant_field_def)
  have p1: "heap (merged_state a p s) p = heap s p"
    using dist by (rule merged_state_pred)
  have d1: "distinct (map fst (heap (merged_state a p s) p))"
    using dist p1 by simp
  have h1: "has_pairs (heap (merged_state a p s) a) (heap s p)"
    using dist by (rule merged_state_has_pairs)
  have h2: "has_pairs (heap (merged_state b p (merged_state a p s)) b) (heap s p)"
    using merged_state_has_pairs [OF d1, of b] p1 by simp
  have h3: "has_pairs (heap (merged_state b p (merged_state a p s)) a) (heap s p)"
    using merged_state_keeps_pairs [OF d1, of a b] h1 p1 by simp
  have ne1: "heap (merged_state a p s) p \<noteq> []"
    using ne p1 by simp
  show ?thesis
    using tf' ne ne1 h1 h2 h3
    by (simp add: Collection_save_def Collection_insert_def Collection_remove_def
        Collection_find_one_def Collection_update_def Collection_find_and_modify_def
        tenant_field_def py_update_merged call_driver_save_five del: py_update.simps)
qed

text \<open>
  C9. \<^verbatim>\<open>insert\<close> of the list of the documents at addresses 2 and 3 on database 0, whose
  tenant field is \<^verbatim>\<open>{"tenant": "t1"}\<close>. The call raises \<^verbatim>\<open>NameError\<close> in the first round
  of its loop. After the call the caller's first document has the pair of the tenant
  field; the caller's second document is as it was and does not have it.
\<close>

theorem insert_sequence_merges_first_document_only:
  "fst (Collection_insert users (PyList [PyDict 2, PyDict 3]) (PyBool True) PyNone
       (PyBool True) (PyBool False) [] example_state) = Raise NameError
   \<and> heap (snd (Collection_insert users (PyList [PyDict 2, PyDict 3]) (PyBool True) PyNone
       (PyBool True) (PyBool False) [] example_state)) 2 =
     [(''name'', PyStr ''a''), (''tenant'', PyStr ''t1'')]
   \<and> heap (snd (Collection_insert users (PyList [PyDict 2, PyDict 3]) (PyBool True) PyNone
       (PyBool True) (PyBool False) [] example_state)) 3 =
     [(''name'', PyStr ''b'')]
   \<and> has_pairs
       (heap (snd (Collection_insert users (PyList [PyDict 2, PyDict 3]) (PyBool True) PyNone
          (PyBool True) (PyBool False) [] example_state)) 2)
       (heap example_state 1)
   \<and> \<not> has_pairs
       (heap (snd (Collection_insert users (PyList [PyDict 2, PyDict 3]) (PyBool True) PyNone
          (PyBool True) (PyBool False) [] example_state)) 3)
       (heap example_state 1)"
  by (simp add: Collection_insert_def tenant_field_def example_state_def users_def has_pairs_def)

section \<open>A bare identifier given to \<^verbatim>\<open>remove\<close> and \<^verbatim>\<open>find_one\<close>\<close>

text \<open>
  C6, as stated, fails for an absent spec. On database 0, whose tenant field is
  \<^verbatim>\<open>{"tenant": "t1"}\<close>, \<^verbatim>\<open>remove()\<close> and \<^verbatim>\<open>find_one()\<close> call the driver with a new
  dictionary \<^verbatim>\<open>{"_id": None, "tenant": "t1"}\<close> as spec. The driver is not called with an
  absent spec, so what it does for an absent spec does not apply.
\<close>

theorem absent_spec_counterexample:
  "Collection_remove users PyNone PyNone [] example_state =
     (Delegate \<lparr>call_target = users, call_method = Driver_remove,
        call_args = [PyDict 5, PyNone], call_kwargs = []\<rparr>,
      example_state\<lparr>heap := (heap example_state)
        (5 := [(''_id'', PyNone), (''tenant'', PyStr ''t1'')]), next_addr := 6\<rparr>)
   \<and> fst (Collection_remove users PyNone PyNone [] example_state) \<noteq>
     Delegate \<lparr>call_target = users, call_method = Driver_remove,
        call_args = [PyNone, PyNone], call_kwargs = []\<rparr>
   \<and> Collection_find_one users PyNone [] [] example_state =
     (Delegate \<lparr>call_target = users, call_method = Driver_find_one,
        call_args = [PyDict 5], call_kwargs = []\<rparr>,
      example_state\<lparr>heap := (heap example_state)
        (5 := [(''_id'', PyNone), (''tenant'', PyStr ''t1'')]), next_addr := 6\<rparr>)
   \<and> fst (Collection_find_one users PyNone [] [] example_state) \<noteq>
     Delegate \<lparr>call_target = users, call_method = Driver_find_one,
        call_args = [PyNone], call_kwargs = []\<rparr>"
  by (simp add: Collection_remove_def Collection_find_one_def tenant_field_def example_state_def
      users_def new_dict_def)

text \<open>
  C6, amended. Let the tenant field of the owning database be the non-empty dictionary at
  the allocated address \<open>p\<close>, and let \<open>ident\<close> be any value that is not a dictionary,
  \<^verbatim>\<open>None\<close> (the absent spec) included. \<^verbatim>\<open>remove\<close> and \<^verbatim>\<open>find_one\<close> of \<open>ident\<close> are the
  same call on a new dictionary \<^verbatim>\<open>{"_id": ident}\<close>: the driver is called with that
  dictionary, whose contents are \<^verbatim>\<open>{"_id": ident}\<close> updated with the tenant field. For
  the absent spec the driver thus receives a dictionary, not an absent spec.
\<close>

theorem bare_identifier_is_id_query:
  assumes tf: "tenant_field s (database self) = Some p"
    and ne: "heap s p \<noteq> []"
    and alloc: "p < next_addr s"
    and ident: "\<not> isinstance_dict ident"
  shows
    "Collection_remove self ident safe kw s =
       Collection_remove self (PyDict (next_addr s)) safe kw
         (snd (new_dict [(''_id'', ident)] s))
     \<and> Collection_remove self ident safe kw s =
       (Delegate \<lparr>call_target = self, call_method = Driver_remove,
          call_args = [PyDict (next_addr s), safe], call_kwargs = kw\<rparr>,
        merged_state (next_addr s) p (snd (new_dict [(''_id'', ident)] s)))
     \<and> Collection_find_one self ident args kw s =
       Collection_find_one self (PyDict (next_addr s)) args kw
         (snd (new_dict [(''_id'', ident)] s))
     \<and> Collection_find_one self ident args kw s =
       (Delegate \<lparr>call_target = self, call_method = Driver_find_one,
          call_args = PyDict (next_addr s) # args, call_kwargs = kw\<rparr>,
        merged_state (next_addr s) p (snd (new_dict [(''_id'', ident)] s)))
     \<and> heap (merged_state (next_addr s) p (snd (new_dict [(''_id'', ident)] s))) (next_addr s) =
       dict_update [(''_id'', ident)] (heap s p)"
  using assms
  by (simp add: Collection_remove_def Collection_find_one_def tenant_field_def new_dict_def
      merged_state_def)

theorem bare_identifier_is_id_query_witness:
  "tenant_field example_state (database users) = Some 1
   \<and> heap example_state 1 \<noteq> []
   \<and> 1 < next_addr example_state
   \<and> \<not> isinstance_dict PyNone
   \<and> Collection_remove users PyNone PyNone [] example_state =
       Collection_remove users (PyDict (next_addr example_state)) PyNone []
         (snd (new_dict [(''_id'', PyNone)] example_state))
   \<and> heap (merged_state (next_addr example_state) 1
         (snd (new_dict [(''_id'', PyNone)] example_state))) (next_addr example_state) =
       dict_update [(''_id'', PyNone)] (heap example_state 1)"
proof -
  have a: "1 < next_addr example_state"
    by (simp add: example_state_def)
  have i: "\<not> isinstance_dict PyNone"
    by simp
  show ?thesis
    using example_users(1,2) a i
      bare_identifier_is_id_query [OF example_users(1,2) a i, where safe = PyNone and kw = "[]"]
    by simp
qed

section \<open>\<^verbatim>\<open>find_one_or_404\<close>\<close>

text \<open>
  C7. If \<^verbatim>\<open>self.find_one\<close> returns \<^verbatim>\<open>None\<close>, \<^verbatim>\<open>find_one_or_404\<close> raises the HTTP
  exception of status 404 and \<^verbatim>\<open>abort\<close> was called once, with 404, after \<^verbatim>\<open>find_one\<close>
  returned. If \<^verbatim>\<open>find_one\<close> returns anything else, that value is the result and the
  state, the record of the calls of \<^verbatim>\<open>abort\<close> included, is the one \<^verbatim>\<open>find_one\<close> left.
  An exception of \<^verbatim>\<open>find_one\<close> is passed on, again without a call of \<^verbatim>\<open>abort\<close>.
\<close>

theorem find_one_or_404_aborts_once_or_returns:
  "(complete drv (call_find_one self args kw s) = (Inr PyNone, s1) \<longrightarrow>
      Collection_find_one_or_404 drv self args kw s =
        (Inl (HTTPException 404), s1\<lparr>aborts := aborts s1 @ [404]\<rparr>))
   \<and> (complete drv (call_find_one self args kw s) = (Inr doc, s1) \<and> doc \<noteq> PyNone \<longrightarrow>
      Collection_find_one_or_404 drv self args kw s = (Inr doc, s1))
   \<and> (complete drv (call_find_one self args kw s) = (Inl e, s1) \<longrightarrow>
      Collection_find_one_or_404 drv self args kw s = (Inl e, s1))"
  by (simp add: Collection_find_one_or_404_def abort_def)

theorem find_one_or_404_aborts_once_or_returns_witness:
  "complete no_document_driver (call_find_one logs [PyDict 2] [] example_state) =
     (Inr PyNone, example_state)
   \<and> Collection_find_one_or_404 no_document_driver logs [PyDict 2] [] example_state =
     (Inl (HTTPException 404), example_state\<lparr>aborts := aborts example_state @ [404]\<rparr>)
   \<and> aborts example_state = []
   \<and> complete one_document_driver (call_find_one logs [PyDict 2] [] example_state) =
     (Inr (PyDict 3), example_state)
   \<and> PyDict 3 \<noteq> PyNone
   \<and> Collection_find_one_or_404 one_document_driver logs [PyDict 2] [] example_state =
     (Inr (PyDict 3), example_state)
   \<and> complete no_document_driver
       (call_find_one logs [PyDict 2] [(''spec_or_id'', PyDict 3)] example_state) =
     (Inl TypeError, example_state)
   \<and> Collection_find_one_or_404 no_document_driver logs [PyDict 2]
       [(''spec_or_id'', PyDict 3)] example_state =
     (Inl TypeError, example_state)"
proof -
  have 1: "complete no_document_driver (call_find_one logs [PyDict 2] [] example_state) =
     (Inr PyNone, example_state)"
    by (simp add: call_find_one_def Collection_find_one_def tenant_field_def example_state_def
        logs_def no_document_driver_def)
  have 2: "complete one_document_driver (call_find_one logs [PyDict 2] [] example_state) =
     (Inr (PyDict 3), example_state)"
    by (simp add: call_find_one_def Collection_find_one_def tenant_field_def example_state_def
        logs_def one_document_driver_def)
  have 3: "complete no_document_driver
       (call_find_one logs [PyDict 2] [(''spec_or_id'', PyDict 3)] example_state) =
     (Inl TypeError, example_state)"
    by (simp add: call_find_one_def)
  have 4: "aborts example_state = []"
    by (simp add: example_state_def)
  show ?thesis
    using 1 2 3 4
      find_one_or_404_aborts_once_or_returns [where drv = no_document_driver and self = logs
        and args = "[PyDict 2]" and kw = "[]" and s = example_state and ?s1.0 = example_state]
      find_one_or_404_aborts_once_or_returns [where drv = one_document_driver and self = logs
        and args = "[PyDict 2]" and kw = "[]" and s = example_state and ?s1.0 = example_state
        and doc = "PyDict 3"]
      find_one_or_404_aborts_once_or_returns [where drv = no_document_driver and self = logs
        and args = "[PyDict 2]" and kw = "[(''spec_or_id'', PyDict 3)]" and s = example_state
        and ?s1.0 = example_state and e = TypeError]
    by simp
qed

section \<open>Sub-collections\<close>









section \<open>The default query of \<^verbatim>\<open>find_and_modify\<close>\<close>

lemma dict_update_keys: "fst ` set (dict_update d p) = fst ` set d \<union> fst ` set p"
  by (induction d p rule: dict_update.induct) (auto simp: AList.dom_update)

lemma merged_state_pred_keys:
  "fst ` set (heap (merged_state a p s) p) = fst ` set (heap s p)"
  by (cases "p = a") (simp_all add: merged_state_def dict_update_keys)

lemma has_pairs_filter: "has_pairs d q \<Longrightarrow> has_pairs d (filter f q)"
  by (simp add: has_pairs_def list_all_iff)

lemma merged_state_keeps_other_keys:
  assumes "has_pairs (heap s x) q" and "\<forall>kv \<in> set q. fst kv \<notin> fst ` set (heap s p)"
  shows "has_pairs (heap (merged_state a p s) x) q"
proof (cases "x = a")
  case True
  with assms show ?thesis
    by (simp add: merged_state_def has_pairs_def list_all_iff dict_update_other_key)
next
  case False
  with assms(1) show ?thesis
    by (simp add: merged_state_def)
qed

lemma find_and_modify_default_after_call:
  assumes tf: "tenant_field s (database self) = Some p"
    and ne: "heap s p \<noteq> []"
    and dist: "distinct (map fst (heap s p))"
    and alloc: "find_and_modify_default < next_addr s"
  shows "has_pairs
    (heap (snd (Collection_find_and_modify self None update upsert sort_arg kw s))
       find_and_modify_default) (heap s p)"
  using find_and_modify_query_after_call [OF tf ne dist alloc]
  by (simp add: find_and_modify_omitted_query)

lemma find_and_modify_default_later_call:
  assumes q: "has_pairs (heap s find_and_modify_default) q"
    and alloc: "find_and_modify_default < next_addr s"
  shows "(\<exists>u. fst (Collection_find_and_modify self None update upsert sort_arg kw s) =
       Delegate \<lparr>call_target = self, call_method = Driver_find_and_modify,
         call_args = [PyDict find_and_modify_default, u, upsert, sort_arg], call_kwargs = kw\<rparr>)
     \<and> has_pairs
       (heap (snd (Collection_find_and_modify self None update upsert sort_arg kw s))
          find_and_modify_default)
       (filter (\<lambda>kv. fst kv \<notin> fst ` set (tenant_pairs s self)) q)"
proof (cases "truthy s (tenant_field s (database self))")
  case False
  with q show ?thesis
    by (simp add: Collection_find_and_modify_def has_pairs_filter)
next
  case True
  then obtain p where tf: "tenant_fields s (database self) = Some p" and ne: "heap s p \<noteq> []"
    by (cases "tenant_field s (database self)") (auto simp: tenant_field_def)
  let ?q = "filter (\<lambda>kv. fst kv \<notin> fst ` set (heap s p)) q"
  let ?s1 = "merged_state find_and_modify_default p s"
  have tp: "tenant_pairs s self = heap s p"
    using tf by (simp add: tenant_pairs_def tenant_field_def)
  have h0: "has_pairs (heap s find_and_modify_default) ?q"
    using q by (rule has_pairs_filter)
  have k0: "\<forall>kv \<in> set ?q. fst kv \<notin> fst ` set (heap s p)"
    by simp
  have h1: "has_pairs (heap ?s1 find_and_modify_default) ?q"
    using h0 k0 by (rule merged_state_keeps_other_keys)
  have k1: "\<forall>kv \<in> set ?q. fst kv \<notin> fst ` set (heap ?s1 p)"
    using k0 by (simp only: merged_state_pred_keys)
  have ne1: "heap ?s1 p \<noteq> []"
    using ne merged_state_pred_keys [of find_and_modify_default p s] by auto
  show ?thesis
  proof (cases update)
    case (PyDict u)
    have "has_pairs (heap (merged_state u p ?s1) find_and_modify_default) ?q"
      using h1 k1 by (rule merged_state_keeps_other_keys)
    with PyDict tf ne ne1 tp show ?thesis
      by (simp add: Collection_find_and_modify_def tenant_field_def py_update_merged
          del: py_update.simps)
  qed (use tf ne ne1 tp h1 alloc in \<open>simp_all add: Collection_find_and_modify_def
        tenant_field_def py_update_merged new_dict_def merged_state_def del: py_update.simps\<close>)
qed

lemma example_calls:
  "Collection_find_and_modify users None (PyDict 2) (PyBool False) PyNone [] example_state =
     (Delegate \<lparr>call_target = users, call_method = Driver_find_and_modify,
        call_args = [PyDict find_and_modify_default, PyDict 2, PyBool False, PyNone],
        call_kwargs = []\<rparr>,
      merged_state 2 1 (merged_state 0 1 example_state))"
  "Collection_find_and_modify orders None (PyDict 3) (PyBool False) PyNone []
       (merged_state 2 1 (merged_state 0 1 example_state)) =
     (Delegate \<lparr>call_target = orders, call_method = Driver_find_and_modify,
        call_args = [PyDict find_and_modify_default, PyDict 3, PyBool False, PyNone],
        call_kwargs = []\<rparr>,
      merged_state 3 4 (merged_state 0 4 (merged_state 2 1 (merged_state 0 1 example_state))))"
  "heap (merged_state 3 4 (merged_state 0 4 (merged_state 2 1 (merged_state 0 1 example_state))))
       find_and_modify_default =
     [(''tenant'', PyStr ''t1''), (''org'', PyStr ''o2'')]"
  "find_and_modify_default < next_addr example_state"
  "find_and_modify_default < next_addr (merged_state 2 1 (merged_state 0 1 example_state))"
  by (simp_all add: Collection_find_and_modify_def tenant_field_def example_state_def users_def
      orders_def merged_state_def find_and_modify_default_def)

text \<open>
  C10, as stated, fails when the later call's tenant field has a key of the earlier one.
  In the state with \<^verbatim>\<open>{"tenant": "t1"}\<close> on database 0 and \<^verbatim>\<open>{"tenant": "t2"}\<close> on
  database 2, \<^verbatim>\<open>find_and_modify\<close> without a query on database 0 leaves
  \<^verbatim>\<open>{"tenant": "t1"}\<close> in the default query object; the following call without a query
  on database 2 overwrites the value of the key: its query is \<^verbatim>\<open>{"tenant": "t2"}\<close>, the
  pair of the earlier call does not remain in it, and it is the query that the same call
  has without the earlier one.
\<close>

theorem later_predicate_overwrites_counterexample:
  "Collection_find_and_modify users None (PyDict 2) (PyBool False) PyNone [] same_key_state =
     (Delegate \<lparr>call_target = users, call_method = Driver_find_and_modify,
        call_args = [PyDict find_and_modify_default, PyDict 2, PyBool False, PyNone],
        call_kwargs = []\<rparr>,
      merged_state 2 1 (merged_state 0 1 same_key_state))
   \<and> heap (merged_state 2 1 (merged_state 0 1 same_key_state)) find_and_modify_default =
     [(''tenant'', PyStr ''t1'')]
   \<and> Collection_find_and_modify orders None (PyDict 3) (PyBool False) PyNone []
       (merged_state 2 1 (merged_state 0 1 same_key_state)) =
     (Delegate \<lparr>call_target = orders, call_method = Driver_find_and_modify,
        call_args = [PyDict find_and_modify_default, PyDict 3, PyBool False, PyNone],
        call_kwargs = []\<rparr>,
      merged_state 3 4 (merged_state 0 4 (merged_state 2 1 (merged_state 0 1 same_key_state))))
   \<and> heap (merged_state 3 4 (merged_state 0 4 (merged_state 2 1
         (merged_state 0 1 same_key_state)))) find_and_modify_default =
     [(''tenant'', PyStr ''t2'')]
   \<and> \<not> has_pairs
       (heap (merged_state 3 4 (merged_state 0 4 (merged_state 2 1
          (merged_state 0 1 same_key_state)))) find_and_modify_default)
       (heap same_key_state 1)
   \<and> heap (snd (Collection_find_and_modify orders None (PyDict 3) (PyBool False) PyNone []
         same_key_state)) find_and_modify_default =
     [(''tenant'', PyStr ''t2'')]"
  by (simp add: Collection_find_and_modify_def tenant_field_def same_key_state_def
      example_state_def users_def orders_def merged_state_def find_and_modify_default_def
      has_pairs_def)

text \<open>
  C10, amended. Let a first call of \<^verbatim>\<open>find_and_modify\<close> omit the query, on a collection
  whose tenant field is the non-empty dictionary at address \<open>p1\<close>, and let a later call
  omit the query too, on any collection \<open>c2\<close>, in a state \<open>s1'\<close> in which the default
  query object is as the first call left it. Then the query that the later call hands
  to the driver is that same object, and it has every pair of the first call's tenant
  field whose key is not a key of the tenant field of \<open>c2\<close>: all of them when the tenant
  field of \<open>c2\<close> is \<^verbatim>\<open>None\<close>.
\<close>

theorem find_and_modify_default_query_is_shared:
  assumes tf1: "tenant_field s (database c1) = Some p1"
    and ne1: "heap s p1 \<noteq> []"
    and dist1: "distinct (map fst (heap s p1))"
    and alloc: "find_and_modify_default < next_addr s"
    and first: "Collection_find_and_modify c1 None update1 upsert1 sort1 kw1 s = (r1, s1)"
    and between: "heap s1' find_and_modify_default = heap s1 find_and_modify_default"
    and alloc': "find_and_modify_default < next_addr s1'"
    and second: "Collection_find_and_modify c2 None update2 upsert2 sort2 kw2 s1' = (r2, s2)"
  shows
    "(\<exists>u. r2 =
        Delegate \<lparr>call_target = c2, call_method = Driver_find_and_modify,
          call_args = [PyDict find_and_modify_default, u, upsert2, sort2],
          call_kwargs = kw2\<rparr>)
     \<and> has_pairs (heap s2 find_and_modify_default)
         (filter (\<lambda>kv. fst kv \<notin> fst ` set (tenant_pairs s1' c2)) (heap s p1))"
proof -
  have "has_pairs (heap s1 find_and_modify_default) (heap s p1)"
    using find_and_modify_default_after_call [OF tf1 ne1 dist1 alloc, of update1 upsert1 sort1 kw1]
      first by simp
  with between have "has_pairs (heap s1' find_and_modify_default) (heap s p1)"
    by simp
  from find_and_modify_default_later_call [OF this alloc', of c2 update2 upsert2 sort2 kw2]
    second show ?thesis
    by simp
qed

theorem find_and_modify_default_query_is_shared_witness:
  "tenant_field example_state (database users) = Some 1
   \<and> heap example_state 1 \<noteq> []
   \<and> distinct (map fst (heap example_state 1))
   \<and> find_and_modify_default < next_addr example_state
   \<and> Collection_find_and_modify users None (PyDict 2) (PyBool False) PyNone [] example_state =
     (Delegate \<lparr>call_target = users, call_method = Driver_find_and_modify,
        call_args = [PyDict find_and_modify_default, PyDict 2, PyBool False, PyNone],
        call_kwargs = []\<rparr>,
      merged_state 2 1 (merged_state 0 1 example_state))
   \<and> find_and_modify_default < next_addr (merged_state 2 1 (merged_state 0 1 example_state))
   \<and> Collection_find_and_modify orders None (PyDict 3) (PyBool False) PyNone []
       (merged_state 2 1 (merged_state 0 1 example_state)) =
     (Delegate \<lparr>call_target = orders, call_method = Driver_find_and_modify,
        call_args = [PyDict find_and_modify_default, PyDict 3, PyBool False, PyNone],
        call_kwargs = []\<rparr>,
      merged_state 3 4 (merged_state 0 4 (merged_state 2 1 (merged_state 0 1 example_state))))
   \<and> has_pairs
       (heap (merged_state 3 4 (merged_state 0 4 (merged_state 2 1
          (merged_state 0 1 example_state)))) find_and_modify_default)
       (filter
         (\<lambda>kv. fst kv \<notin>
            fst ` set (tenant_pairs (merged_state 2 1 (merged_state 0 1 example_state)) orders))
         (heap example_state 1))
   \<and> heap (merged_state 3 4 (merged_state 0 4 (merged_state 2 1
          (merged_state 0 1 example_state)))) find_and_modify_default =
     [(''tenant'', PyStr ''t1''), (''org'', PyStr ''o2'')]"
  using example_users(1-3) example_calls
    find_and_modify_default_query_is_shared [OF example_users(1-3) example_calls(4)
      example_calls(1) refl example_calls(5) example_calls(2)]
  by blast

end
